theory Spec2Isabelle
  imports Complex_Main
begin

section \<open>Data model of \<open>object_detection.py\<close>\<close>

text \<open>
  The program matches a training image against live video frames. Its own code is the
  class \<open>object_detection\<close> and the frame loop under \<open>__main__\<close>; the image
  operations come from the libraries it imports (OpenCV's colour conversion, SIFT
  detector and extractor, brute-force matcher, scikit-learn's KMeans). The library
  operations whose result only flows through the program are parameters of the model:

  \<^item> \<open>cvt\<close>: \<open>cv2.cvtColor(image, cv2.COLOR_BGR2GRAY)\<close>, from an image to its
    grey-scale copy;
  \<^item> \<open>detect\<close>: \<open>cv2.SIFT_create().detect\<close>, from a grey-scale image to its
    key points;
  \<^item> \<open>describe\<close>: the descriptor that \<open>cv2.SIFT_create().compute\<close> gives one key
    point of a grey-scale image;
  \<^item> \<open>ddist\<close>: the matcher's distance between two descriptors;
  \<^item> \<open>fit\<close>: \<open>KMeans(init='random', n_clusters=4).fit\<close>, which either raises
    or yields cluster centres;
  \<^item> \<open>rnd\<close>: the rounding of a real number to the nearest double.

  The library calls on whose behaviour the program's own result depends are modelled
  as the libraries behave: \<open>sift_compute\<close>, \<open>knnMatch\<close> with
  \<open>bf_knnMatch\<close>, and \<open>kmeans_fit\<close>.

  Python floats are modelled as \<open>real\<close>. The responses and distances that the
  libraries return are doubles, and comparing two doubles is exact. The thresholds are
  kept as the exact quotients the setters compute; the instance stores the double
  nearest to them. The one arithmetic result that the program compares is the product
  of the stored ratio threshold and a distance, computed in doubles: it is modelled as
  \<open>rnd (rnd t * d)\<close>.

  A descriptor array is a value of type \<open>'d list option\<close>: \<open>None\<close> is Python's
  \<open>None\<close>, \<open>Some ds\<close> an array with the rows \<open>ds\<close>.
\<close>

text \<open>A key point, with the two attributes the program reads: \<open>pt\<close> and \<open>response\<close>.\<close>

record keypoint =
  pt :: "real \<times> real"
  response :: "real"

text \<open>A match as the matcher returns it (\<open>cv2.DMatch\<close>).\<close>

record DMatch =
  queryIdx :: nat
  trainIdx :: nat
  distance :: real

text \<open>The fields of an \<open>object_detection\<close> instance.\<close>

record object_detection =
  image_dir :: string
  corner_threshold :: real
  close_match_threshold :: real

text \<open>The exceptions the modelled code can raise; \<open>CvError\<close> is \<open>cv2.error\<close>.\<close>

datatype error = ValueError | IndexError | NameError | CvError

section \<open>The methods of the class\<close>

text \<open>\<open>__init__\<close>; the working directory is the argument \<open>cwd\<close>.\<close>

definition init :: "string \<Rightarrow> object_detection" where
  "init cwd = \<lparr>image_dir = cwd @ ''/Images/train.png'',
               corner_threshold = 0,
               close_match_threshold = 1\<rparr>"

text \<open>\<open>find_corners\<close>: detect on the grey-scale image, keep the corners whose response
  is above the threshold.\<close>

definition find_corners ::
  "('img \<Rightarrow> 'g) \<Rightarrow> ('g \<Rightarrow> keypoint list) \<Rightarrow> object_detection \<Rightarrow> 'img \<Rightarrow> keypoint list" where
  "find_corners cvt detect self img =
     (let image_bw = cvt img;
          corners = detect image_bw
      in filter (\<lambda>corner. response corner > corner_threshold self) corners)"

text \<open>
  The descriptors that \<open>cv2.SIFT_create().compute(image_bw, corners)\<close> returns, as
  the library behaves: an array with one row for each key point it is given, in the
  order given, row \<open>i\<close> describing key point \<open>i\<close>; \<open>None\<close> when it is given no
  key point.
\<close>

definition sift_compute :: "('g \<Rightarrow> keypoint \<Rightarrow> 'd) \<Rightarrow> 'g \<Rightarrow> keypoint list \<Rightarrow> 'd list option" where
  "sift_compute describe image_bw corners =
     (if corners = [] then None else Some (map (describe image_bw) corners))"

text \<open>\<open>find_descriptors\<close>: finds the corners again, then computes their descriptors
  and returns what the library returned.\<close>

definition find_descriptors ::
  "('img \<Rightarrow> 'g) \<Rightarrow> ('g \<Rightarrow> keypoint list) \<Rightarrow> ('g \<Rightarrow> keypoint \<Rightarrow> 'd) \<Rightarrow>
   object_detection \<Rightarrow> 'img \<Rightarrow> 'd list option" where
  "find_descriptors cvt detect describe self img =
     (let corners = find_corners cvt detect self img;
          image_bw = cvt img
      in sift_compute describe image_bw corners)"

text \<open>
  The rows of \<open>cv2.BFMatcher().knnMatch(queryDescriptors, trainDescriptors, k)\<close> as the
  library documents them: one row per query descriptor, holding the \<open>k\<close> train
  descriptors closest to it in increasing distance, or fewer when the train set has
  fewer than \<open>k\<close> elements. A match records the index of the query descriptor, the
  index of the train descriptor and their distance. Equal distances keep the order of
  the train set.
\<close>

definition knn_row :: "('d \<Rightarrow> 'd \<Rightarrow> real) \<Rightarrow> nat \<Rightarrow> 'd \<Rightarrow> 'd list \<Rightarrow> DMatch list" where
  "knn_row ddist qi q train =
     sort_key distance
       (map (\<lambda>ti. \<lparr>queryIdx = qi, trainIdx = ti, distance = ddist q (train ! ti)\<rparr>)
            [0..<length train])"

definition knnMatch ::
  "('d \<Rightarrow> 'd \<Rightarrow> real) \<Rightarrow> 'd list \<Rightarrow> 'd list \<Rightarrow> nat \<Rightarrow> DMatch list list" where
  "knnMatch ddist query train k =
     map (\<lambda>qi. take k (knn_row ddist qi (query ! qi) train)) [0..<length query]"

text \<open>
  The call of the matcher on two descriptor arrays, as the library behaves: with no
  query descriptor (\<open>None\<close> or an empty array) it returns no row; with query
  descriptors and \<open>None\<close> for the train descriptors it raises \<open>cv2.error\<close>.
\<close>

definition bf_knnMatch ::
  "('d \<Rightarrow> 'd \<Rightarrow> real) \<Rightarrow> 'd list option \<Rightarrow> 'd list option \<Rightarrow> nat \<Rightarrow>
   error + DMatch list list" where
  "bf_knnMatch ddist queryDescriptors trainDescriptors k =
     (case queryDescriptors of
        None \<Rightarrow> Inr []
      | Some query \<Rightarrow>
          if query = [] then Inr []
          else (case trainDescriptors of
                  None \<Rightarrow> Inl CvError
                | Some train \<Rightarrow> Inr (knnMatch ddist query train k)))"

text \<open>
  The loop of \<open>corner_match\<close> over the rows of matches. \<open>for m, n in matches\<close>
  unpacks each row into exactly two matches and raises ValueError otherwise; the
  condition is a short-circuit \<open>and\<close>, so \<open>new_corners[m.trainIdx]\<close> is read only
  when the ratio test has passed, and raises IndexError when the index is out of range.
  The product \<open>self.close_match_threshold*n.distance\<close> is the double product of the
  stored threshold and the distance.
\<close>

fun good_matches_loop ::
  "(real \<Rightarrow> real) \<Rightarrow> object_detection \<Rightarrow> keypoint list \<Rightarrow> DMatch list list \<Rightarrow>
   (nat \<times> nat) list \<Rightarrow> error + (nat \<times> nat) list" where
  "good_matches_loop rnd self new_corners [] good_matches = Inr good_matches"
| "good_matches_loop rnd self new_corners (row # matches) good_matches =
     (case row of
        [m, n] \<Rightarrow>
          if distance m < rnd (rnd (close_match_threshold self) * distance n) then
            if trainIdx m < length new_corners then
              if response (new_corners ! trainIdx m) > corner_threshold self
              then good_matches_loop rnd self new_corners matches
                     (good_matches @ [(queryIdx m, trainIdx m)])
              else good_matches_loop rnd self new_corners matches good_matches
            else Inl IndexError
          else good_matches_loop rnd self new_corners matches good_matches
      | _ \<Rightarrow> Inl ValueError)"

text \<open>\<open>[new_corners[i] for i in corner_idx]\<close>, raising IndexError out of range.\<close>

fun select_corners :: "keypoint list \<Rightarrow> nat list \<Rightarrow> error + keypoint list" where
  "select_corners new_corners [] = Inr []"
| "select_corners new_corners (i # corner_idx) =
     (if i < length new_corners then
        (case select_corners new_corners corner_idx of
           Inl e \<Rightarrow> Inl e
         | Inr rest \<Rightarrow> Inr (new_corners ! i # rest))
      else Inl IndexError)"

text \<open>\<open>corner_match(original, new, new_corners)\<close>: the matcher is called with
  \<open>original\<close> as its query set and \<open>new\<close> as its train set.\<close>

definition corner_match ::
  "(real \<Rightarrow> real) \<Rightarrow> ('d \<Rightarrow> 'd \<Rightarrow> real) \<Rightarrow> object_detection \<Rightarrow> 'd list option \<Rightarrow>
   'd list option \<Rightarrow> keypoint list \<Rightarrow> error + keypoint list" where
  "corner_match rnd ddist self original new new_corners =
     (case bf_knnMatch ddist original new 2 of
        Inl e \<Rightarrow> Inl e
      | Inr matches \<Rightarrow>
          (case good_matches_loop rnd self new_corners matches [] of
             Inl e \<Rightarrow> Inl e
           | Inr good_matches \<Rightarrow>
               (let corner_idx = map snd good_matches
                in select_corners new_corners corner_idx)))"

definition find_x :: "keypoint list \<Rightarrow> real list" where
  "find_x corners = map (\<lambda>corner. fst (pt corner)) corners"

definition find_y :: "keypoint list \<Rightarrow> real list" where
  "find_y corners = map (\<lambda>corner. snd (pt corner)) corners"

definition change_corner_threshold :: "object_detection \<Rightarrow> int \<Rightarrow> object_detection" where
  "change_corner_threshold self v = self\<lparr>corner_threshold := real_of_int v / 1000\<rparr>"

definition change_match_threshold :: "object_detection \<Rightarrow> int \<Rightarrow> object_detection" where
  "change_match_threshold self v = self\<lparr>close_match_threshold := real_of_int v / 100\<rparr>"

text \<open>
  \<open>find_four_clusters\<close>: the points are the rows of the transposed array of the x and
  y coordinates; an exception of \<open>fit\<close> is caught and turned into \<open>None\<close>.
\<close>

definition find_four_clusters ::
  "((real \<times> real) list \<Rightarrow> 'e + (real \<times> real) list) \<Rightarrow> keypoint list \<Rightarrow>
   (real \<times> real) list option" where
  "find_four_clusters fit corners =
     (let x = find_x corners;
          y = find_y corners;
          points = zip x y
      in case fit points of
           Inl e \<Rightarrow> None
         | Inr cluster_centers \<Rightarrow> Some cluster_centers)"

text \<open>
  \<open>KMeans(init='random', n_clusters=4).fit(points)\<close> as the library behaves: it
  raises ValueError when it is given fewer than four points; otherwise it returns four
  centres, also when fewer than four of the points are distinct (it then only warns).
  Which centres it returns depends on its random start: \<open>centres\<close> stands for that
  choice.
\<close>

definition kmeans_fit ::
  "((real \<times> real) list \<Rightarrow> (real \<times> real) list) \<Rightarrow> (real \<times> real) list \<Rightarrow>
   error + (real \<times> real) list" where
  "kmeans_fit centres points =
     (if length points < 4 then Inl ValueError else Inr (centres points))"

section \<open>The frame loop\<close>

text \<open>
  A Python name is unassigned until its first assignment; reading it then raises
  NameError. \<open>cluster_coords\<close> is the one name of the loop that is read on a path that
  may not have assigned it.
\<close>

datatype 'a pyvar = Unassigned | Assigned 'a

text \<open>What one pass of the loop shows: nothing (the pass ended in \<open>continue\<close>), or the
  frame with a circle at each cluster centre and at each good corner.\<close>

datatype overlay = Skipped | Shown "(real \<times> real) list" "keypoint list"

text \<open>
  One pass of \<open>while True\<close>, from the frame that \<open>cap.read()\<close> returned (\<open>None\<close>
  when there is none) and the value of \<open>cluster_coords\<close> left by the pass before.
  The thresholds are fields of the instance that the slider callbacks write; each
  method call reads them anew, so the pass takes the instance as it is at the call of
  \<open>find_corners\<close> (\<open>self1\<close>), of \<open>find_descriptors\<close> (\<open>self2\<close>) and of
  \<open>corner_match\<close> (\<open>self3\<close>).
\<close>

definition loop_body ::
  "(real \<Rightarrow> real) \<Rightarrow> ('img \<Rightarrow> 'g) \<Rightarrow> ('g \<Rightarrow> keypoint list) \<Rightarrow> ('g \<Rightarrow> keypoint \<Rightarrow> 'd) \<Rightarrow>
   ('d \<Rightarrow> 'd \<Rightarrow> real) \<Rightarrow> ((real \<times> real) list \<Rightarrow> 'e + (real \<times> real) list) \<Rightarrow>
   object_detection \<Rightarrow> object_detection \<Rightarrow> object_detection \<Rightarrow> 'd list option \<Rightarrow>
   (real \<times> real) list option pyvar \<Rightarrow> 'img option \<Rightarrow>
   error + ((real \<times> real) list option pyvar \<times> overlay)" where
  "loop_body rnd cvt detect describe ddist fit self1 self2 self3 train_descriptors
             cluster_coords frame =
     (case frame of
        None \<Rightarrow> Inr (cluster_coords, Skipped)
      | Some frm \<Rightarrow>
          (let new_corners = find_corners cvt detect self1 frm
           in if length new_corners > 1 then
                (let new_descriptors = find_descriptors cvt detect describe self2 frm
                 in case corner_match rnd ddist self3 train_descriptors new_descriptors
                           new_corners of
                      Inl e \<Rightarrow> Inl e
                    | Inr good_corners \<Rightarrow>
                        (let cluster_coords' =
                               (if length good_corners > 5
                                then Assigned (find_four_clusters fit good_corners)
                                else cluster_coords)
                         in case cluster_coords' of
                              Unassigned \<Rightarrow> Inl NameError
                            | Assigned None \<Rightarrow> Inr (cluster_coords', Shown [] good_corners)
                            | Assigned (Some centers) \<Rightarrow>
                                Inr (cluster_coords', Shown centers good_corners)))
              else Inr (cluster_coords, Skipped)))"

section \<open>Concrete inputs\<close>

text \<open>
  Stand-ins for the library operations, used to run the model on concrete inputs: an
  image is given by the key points the detector finds in it, the descriptor of a key
  point is its x coordinate, the distance of two descriptors is the absolute
  difference, and the clustering returns its first four points. Where a run uses
  \<open>exact\<close> for the rounding, its ratio threshold is 1 or 1/2 and its distances are
  whole numbers or quarters, so every product is a double and rounding it changes
  nothing.
\<close>

definition exact :: "real \<Rightarrow> real" where
  "exact x = x"

definition kp :: "real \<Rightarrow> real \<Rightarrow> real \<Rightarrow> keypoint" where
  "kp x y r = \<lparr>pt = (x, y), response = r\<rparr>"

definition abs_dist :: "real \<Rightarrow> real \<Rightarrow> real" where
  "abs_dist a b = \<bar>a - b\<bar>"

definition x_coord :: "keypoint list \<Rightarrow> keypoint \<Rightarrow> real" where
  "x_coord g corner = fst (pt corner)"

definition first_four :: "(real \<times> real) list \<Rightarrow> unit + (real \<times> real) list" where
  "first_four points = Inr (take 4 points)"

definition two_corner_image :: "keypoint list" where
  "two_corner_image = [kp 0 0 (1/100), kp 1 1 (6/100)]"

definition ref_descriptors :: "real list" where
  "ref_descriptors = [0, 100]"

definition frame_corners :: "keypoint list" where
  "frame_corners = [kp 0 0 1, kp 1 0 1]"

definition three_refs :: "real list" where
  "three_refs = [0, 1/4, 1/2]"

definition far_corners :: "keypoint list" where
  "far_corners = [kp 0 0 1, kp 100 0 1]"

definition three_corner_image :: "keypoint list" where
  "three_corner_image = [kp 0 0 (1/64), kp 1 0 (1/8), kp 2 0 (1/8)]"

definition strict_ratio :: object_detection where
  "strict_ratio = (init [])\<lparr>close_match_threshold := 1/2\<rparr>"

definition eight_refs :: "real list" where
  "eight_refs = [0, 1, 2, 3, 4, 5, 6, 7]"

definition first_frame :: "keypoint list" where
  "first_frame = [kp 0 7 1, kp 100 9 1]"

definition first_centers :: "(real \<times> real) list" where
  "first_centers = [(0, 7), (0, 7), (0, 7), (0, 7)]"

definition wide_frame :: "keypoint list" where
  "wide_frame = [kp 0 0 1, kp 5 0 1]"

definition six_same :: "keypoint list" where
  "six_same = [kp 3 4 1, kp 3 4 1, kp 3 4 1, kp 3 4 1, kp 3 4 1, kp 3 4 1]"

definition slider_seven :: object_detection where
  "slider_seven = change_match_threshold (init []) 7"

text \<open>The number of rows of a descriptor array, none for \<open>None\<close>.\<close>

definition rows_of :: "'d list option \<Rightarrow> nat" where
  "rows_of descriptors = (case descriptors of None \<Rightarrow> 0 | Some ds \<Rightarrow> length ds)"

section \<open>Nearest and second nearest\<close>

text \<open>
  What it means for the matches \<open>m\<close> and \<open>n\<close> to be the nearest and the second
  nearest neighbour of the descriptor \<open>q\<close> in the set \<open>train\<close>: they point to two
  different elements of \<open>train\<close>, carry their distances to \<open>q\<close>, \<open>m\<close> is at most as
  far as \<open>n\<close>, and every element other than the one \<open>m\<close> points to is at least as
  far as \<open>n\<close>.
\<close>

definition two_nearest :: "('d \<Rightarrow> 'd \<Rightarrow> real) \<Rightarrow> 'd \<Rightarrow> 'd list \<Rightarrow> DMatch \<Rightarrow> DMatch \<Rightarrow> bool" where
  "two_nearest ddist q train m n \<longleftrightarrow>
     trainIdx m < length train \<and> trainIdx n < length train \<and> trainIdx m \<noteq> trainIdx n \<and>
     distance m = ddist q (train ! trainIdx m) \<and>
     distance n = ddist q (train ! trainIdx n) \<and>
     distance m \<le> distance n \<and>
     (\<forall>j \<in> set [0..<length train]. j \<noteq> trainIdx m \<longrightarrow> distance n \<le> ddist q (train ! j))"

section \<open>The threshold setters\<close>

text \<open>
  Claim C10. \<open>change_corner_threshold\<close> sets \<open>corner_threshold\<close> to the slider value
  divided by 1000 and \<open>change_match_threshold\<close> sets \<open>close_match_threshold\<close> to the
  slider value divided by 100, for every value, each leaving the other threshold as it
  was; the slider value 50 gives the corner threshold 0.05 and the value 0 gives 0.
\<close>

theorem change_thresholds_exact:
  "corner_threshold (change_corner_threshold self v) = real_of_int v / 1000
   \<and> close_match_threshold (change_corner_threshold self v) = close_match_threshold self
   \<and> close_match_threshold (change_match_threshold self v) = real_of_int v / 100
   \<and> corner_threshold (change_match_threshold self v) = corner_threshold self
   \<and> corner_threshold (change_corner_threshold self 50) = 0.05
   \<and> corner_threshold (change_corner_threshold self 0) = 0.0"
  by (simp add: change_corner_threshold_def change_match_threshold_def)

section \<open>Corner detection\<close>

text \<open>
  Claim C7. For a fixed image, the corners found at a threshold that is not lower are
  the corners found at the lower threshold, filtered again by the higher one; so there
  are at most as many of them.
\<close>

theorem find_corners_antitone:
  assumes "corner_threshold self1 \<le> corner_threshold self2"
  shows "find_corners cvt detect self2 img =
           filter (\<lambda>corner. response corner > corner_threshold self2)
             (find_corners cvt detect self1 img)
         \<and> length (find_corners cvt detect self2 img)
             \<le> length (find_corners cvt detect self1 img)"
proof -
  have imp: "\<And>c. corner_threshold self2 < response c \<Longrightarrow> corner_threshold self1 < response c"
    using assms by simp
  have eq: "find_corners cvt detect self2 img =
           filter (\<lambda>corner. response corner > corner_threshold self2)
             (find_corners cvt detect self1 img)"
    unfolding find_corners_def Let_def filter_filter
    by (rule filter_cong) (auto dest: imp)
  have "length (filter (\<lambda>corner. response corner > corner_threshold self2)
             (find_corners cvt detect self1 img)) \<le> length (find_corners cvt detect self1 img)"
    by (rule length_filter_le)
  with eq show ?thesis by simp
qed

theorem find_corners_antitone_witness:
  "corner_threshold (init []) \<le> corner_threshold (change_corner_threshold (init []) 50)
   \<and> find_corners (\<lambda>i. i) (\<lambda>g. g) (change_corner_threshold (init []) 50) two_corner_image =
           filter (\<lambda>corner. response corner > corner_threshold (change_corner_threshold (init []) 50))
             (find_corners (\<lambda>i. i) (\<lambda>g. g) (init []) two_corner_image)
   \<and> length (find_corners (\<lambda>i. i) (\<lambda>g. g) (change_corner_threshold (init []) 50) two_corner_image) = 1
   \<and> length (find_corners (\<lambda>i. i) (\<lambda>g. g) (init []) two_corner_image) = 2"
proof -
  have h: "corner_threshold (init []) \<le> corner_threshold (change_corner_threshold (init []) 50)"
    by (simp add: init_def change_corner_threshold_def)
  have l1: "length (find_corners (\<lambda>i. i) (\<lambda>g. g) (change_corner_threshold (init []) 50) two_corner_image) = 1"
    by (simp add: find_corners_def init_def change_corner_threshold_def two_corner_image_def kp_def)
  have l2: "length (find_corners (\<lambda>i. i) (\<lambda>g. g) (init []) two_corner_image) = 2"
    by (simp add: find_corners_def init_def two_corner_image_def kp_def)
  from find_corners_antitone[OF h, of "\<lambda>i. i" "\<lambda>g. g" two_corner_image] h l1 l2
  show ?thesis by blast
qed

section \<open>The match filter\<close>

lemma loop_pair:
  "good_matches_loop rnd self ncs ([m, n] # ms) acc =
     (if distance m < rnd (rnd (close_match_threshold self) * distance n) then
        if trainIdx m < length ncs then
          if response (ncs ! trainIdx m) > corner_threshold self
          then good_matches_loop rnd self ncs ms (acc @ [(queryIdx m, trainIdx m)])
          else good_matches_loop rnd self ncs ms acc
        else Inl IndexError
      else good_matches_loop rnd self ncs ms acc)"
  by simp

lemma loop_not_pair:
  "length row \<noteq> 2 \<Longrightarrow> good_matches_loop rnd self ncs (row # ms) acc = Inl ValueError"
proof (cases row)
  case Nil
  then show ?thesis by simp
next
  case (Cons m r1)
  assume len: "length row \<noteq> 2"
  show ?thesis
  proof (cases r1)
    case Nil
    with Cons show ?thesis by simp
  next
    case (Cons n r2)
    with \<open>row = m # r1\<close> len obtain a r3 where "r2 = a # r3" by (cases r2) auto
    with Cons \<open>row = m # r1\<close> show ?thesis by simp
  qed
qed

declare good_matches_loop.simps(2) [simp del]

lemma pair_row: "length row = 2 \<Longrightarrow> row = [row ! 0, row ! 1]"
  by (cases row; cases "tl row") auto

lemma knn_row_length: "length (knn_row ddist qi q train) = length train"
  by (simp add: knn_row_def)

lemma knnMatch_length: "length (knnMatch ddist query train k) = length query"
  by (simp add: knnMatch_def)

lemma knnMatch_row_length:
  "row \<in> set (knnMatch ddist query train k) \<Longrightarrow> length row = min k (length train)"
  by (auto simp: knnMatch_def knn_row_length)

lemma knn_row_member:
  "c \<in> set (knn_row ddist qi q train) \<Longrightarrow>
     queryIdx c = qi \<and> trainIdx c < length train \<and> distance c = ddist q (train ! trainIdx c)"
  by (auto simp: knn_row_def)

lemma knnMatch_trainIdx:
  "row \<in> set (knnMatch ddist query train k) \<Longrightarrow> c \<in> set row \<Longrightarrow> trainIdx c < length train"
  by (auto simp: knnMatch_def dest!: in_set_takeD knn_row_member)

lemma knn_row_two_nearest:
  assumes "2 \<le> length train"
  shows "\<exists>m n. take 2 (knn_row ddist qi q train) = [m, n] \<and> queryIdx m = qi \<and>
               two_nearest ddist q train m n"
proof -
  define g where "g = (\<lambda>ti. \<lparr>queryIdx = qi, trainIdx = ti, distance = ddist q (train ! ti)\<rparr>)"
  define cands where "cands = map g [0..<length train]"
  define xs where "xs = knn_row ddist qi q train"
  have xs: "xs = sort_key distance cands"
    by (simp add: xs_def knn_row_def cands_def g_def)
  have len: "length xs = length train" by (simp add: xs cands_def)
  have setxs: "set xs = set cands" by (simp add: xs)
  have sorted: "sorted (map distance xs)" by (simp add: xs)
  have inj: "inj_on trainIdx (set cands)"
    by (auto simp: cands_def g_def inj_on_def)
  have "distinct cands"
    by (simp add: cands_def distinct_map g_def inj_on_def)
  then have "distinct xs" by (simp add: xs)
  with inj setxs have dist_idx: "distinct (map trainIdx xs)"
    by (simp add: distinct_map)
  have mem: "\<And>c. c \<in> set xs \<Longrightarrow>
      queryIdx c = qi \<and> trainIdx c < length train \<and> distance c = ddist q (train ! trainIdx c)"
    unfolding xs_def by (rule knn_row_member)
  define m where "m = xs ! 0"
  define n where "n = xs ! 1"
  have l0: "0 < length xs" and l1: "1 < length xs" using assms len by linarith+
  have m_in: "m \<in> set xs" unfolding m_def using l0 by (rule nth_mem)
  have n_in: "n \<in> set xs" unfolding n_def using l1 by (rule nth_mem)
  have take2: "take 2 xs = [m, n]"
    using assms len by (cases xs; cases "tl xs") (auto simp: m_def n_def)
  have neq: "trainIdx m \<noteq> trainIdx n"
  proof -
    have "(map trainIdx xs ! 0 = map trainIdx xs ! 1) = ((0::nat) = 1)"
      using dist_idx l0 l1 by (intro nth_eq_iff_index_eq) simp_all
    then have "map trainIdx xs ! 0 \<noteq> map trainIdx xs ! 1" by simp
    then show ?thesis using l0 l1 by (simp add: m_def n_def)
  qed
  have le: "distance m \<le> distance n"
    using sorted_nth_mono[OF sorted, of 0 1] l0 l1 by (simp add: m_def n_def)
  have rest: "\<forall>j \<in> set [0..<length train]. j \<noteq> trainIdx m \<longrightarrow> distance n \<le> ddist q (train ! j)"
  proof (intro ballI impI)
    fix j assume j: "j \<in> set [0..<length train]" and jm: "j \<noteq> trainIdx m"
    then have "g j \<in> set cands" by (simp add: cands_def)
    then have "g j \<in> set xs" by (simp add: setxs)
    then obtain p where p: "p < length xs" "xs ! p = g j" by (auto simp: in_set_conv_nth)
    have "p \<noteq> 0"
    proof
      assume "p = 0"
      with p have "trainIdx m = j" by (simp add: m_def g_def)
      with jm show False by simp
    qed
    then have "1 \<le> p" by simp
    from sorted_nth_mono[OF sorted this] p l1 have "distance (xs ! 1) \<le> distance (xs ! p)"
      by simp
    then show "distance n \<le> ddist q (train ! j)" using p by (simp add: n_def g_def)
  qed
  have "two_nearest ddist q train m n"
    unfolding two_nearest_def using mem[OF m_in] mem[OF n_in] neq le rest by simp
  moreover have "queryIdx m = qi" using mem[OF m_in] by simp
  ultimately show ?thesis using take2 unfolding xs_def by blast
qed


lemma loop_no_IndexError:
  "\<forall>row \<in> set rows. \<forall>c \<in> set row. trainIdx c < length ncs \<Longrightarrow>
   good_matches_loop rnd self ncs rows acc \<noteq> Inl IndexError"
proof (induction rows arbitrary: acc)
  case Nil
  then show ?case by simp
next
  case (Cons row rows)
  show ?case
  proof (cases "length row = 2")
    case False
    then show ?thesis by (simp add: loop_not_pair)
  next
    case True
    then have row: "row = [row ! 0, row ! 1]" by (rule pair_row)
    have "row ! 0 \<in> set row" using True by simp
    then have "trainIdx (row ! 0) < length ncs" using Cons.prems by simp
    moreover have "\<And>a. good_matches_loop rnd self ncs rows a \<noteq> Inl IndexError"
      using Cons.IH Cons.prems by simp
    ultimately show ?thesis
      by (subst row) (simp add: loop_pair)
  qed
qed

lemma loop_invariant:
  "good_matches_loop rnd self ncs rows acc = Inr good \<Longrightarrow>
   \<forall>p \<in> set acc. snd p < length ncs \<and> response (ncs ! snd p) > corner_threshold self \<Longrightarrow>
   length good \<le> length acc + length rows \<and>
   (\<forall>p \<in> set good. snd p < length ncs \<and> response (ncs ! snd p) > corner_threshold self)"
proof (induction rows arbitrary: acc)
  case Nil
  then show ?case by simp
next
  case (Cons row rows)
  show ?case
  proof (cases "length row = 2")
    case False
    with Cons.prems show ?thesis by (simp add: loop_not_pair)
  next
    case True
    then have row: "row = [row ! 0, row ! 1]" by (rule pair_row)
    from Cons.prems(1) have
      step: "good_matches_loop rnd self ncs ([row ! 0, row ! 1] # rows) acc = Inr good"
      using row by simp
    show ?thesis
      using step Cons.prems(2) Cons.IH[of acc]
        Cons.IH[of "acc @ [(queryIdx (row ! 0), trainIdx (row ! 0))]"]
      by (auto simp: loop_pair split: if_splits)
  qed
qed

lemma select_corners_nth:
  "select_corners ncs idx = Inr out \<Longrightarrow> out = map (\<lambda>i. ncs ! i) idx \<and> (\<forall>i \<in> set idx. i < length ncs)"
  by (induction idx arbitrary: out) (auto split: if_splits sum.splits)

lemma select_corners_ok:
  "\<forall>i \<in> set idx. i < length ncs \<Longrightarrow> select_corners ncs idx = Inr (map (\<lambda>i. ncs ! i) idx)"
  by (induction idx) auto

lemma loop_exact:
  "\<forall>row \<in> set rows. length row = 2 \<and> trainIdx (row ! 0) < length ncs \<Longrightarrow>
   good_matches_loop rnd self ncs rows acc =
     Inr (acc @ map (\<lambda>row. (queryIdx (row ! 0), trainIdx (row ! 0)))
            (filter (\<lambda>row. distance (row ! 0) < rnd (rnd (close_match_threshold self) * distance (row ! 1))
                           \<and> response (ncs ! trainIdx (row ! 0)) > corner_threshold self) rows))"
proof (induction rows arbitrary: acc)
  case Nil
  then show ?case by simp
next
  case (Cons row rows)
  from Cons.prems have len: "length row = 2" and idx: "trainIdx (row ! 0) < length ncs" by simp_all
  from len have row: "row = [row ! 0, row ! 1]" by (rule pair_row)
  have IH: "\<And>a. good_matches_loop rnd self ncs rows a =
     Inr (a @ map (\<lambda>row. (queryIdx (row ! 0), trainIdx (row ! 0)))
            (filter (\<lambda>row. distance (row ! 0) < rnd (rnd (close_match_threshold self) * distance (row ! 1))
                           \<and> response (ncs ! trainIdx (row ! 0)) > corner_threshold self) rows))"
    using Cons.IH Cons.prems by simp
  have "good_matches_loop rnd self ncs (row # rows) acc =
        good_matches_loop rnd self ncs ([row ! 0, row ! 1] # rows) acc"
    using row by simp
  also have "\<dots> = Inr (acc @ map (\<lambda>row. (queryIdx (row ! 0), trainIdx (row ! 0)))
            (filter (\<lambda>row. distance (row ! 0) < rnd (rnd (close_match_threshold self) * distance (row ! 1))
                           \<and> response (ncs ! trainIdx (row ! 0)) > corner_threshold self) (row # rows)))"
    using idx by (simp add: loop_pair IH)
  finally show ?case .
qed

lemma loop_IndexError_iff:
  "\<forall>row \<in> set rows. length row = 2 \<Longrightarrow>
   good_matches_loop rnd self ncs rows acc = Inl IndexError \<longleftrightarrow>
     (\<exists>row \<in> set rows. distance (row ! 0) < rnd (rnd (close_match_threshold self) * distance (row ! 1))
                       \<and> \<not> trainIdx (row ! 0) < length ncs)"
proof (induction rows arbitrary: acc)
  case Nil
  then show ?case by simp
next
  case (Cons row rows)
  from Cons.prems have "length row = 2" by simp
  then have row: "row = [row ! 0, row ! 1]" by (rule pair_row)
  have IH: "\<And>a. good_matches_loop rnd self ncs rows a = Inl IndexError \<longleftrightarrow>
     (\<exists>row \<in> set rows. distance (row ! 0) < rnd (rnd (close_match_threshold self) * distance (row ! 1))
                       \<and> \<not> trainIdx (row ! 0) < length ncs)"
    using Cons.IH Cons.prems by simp
  have "good_matches_loop rnd self ncs (row # rows) acc =
        good_matches_loop rnd self ncs ([row ! 0, row ! 1] # rows) acc"
    using row by simp
  then show ?case
    by (simp add: loop_pair IH)
qed

lemma bf_knnMatch_arrays:
  "bf_knnMatch ddist (Some query) (Some train) k = Inr (knnMatch ddist query train k)"
  by (simp add: bf_knnMatch_def knnMatch_def)

lemma bf_knnMatch_rows:
  "bf_knnMatch ddist original new k = Inr rows \<Longrightarrow>
   length rows \<le> rows_of original \<and>
   (rows \<noteq> [] \<longrightarrow> (\<exists>os ds. original = Some os \<and> new = Some ds \<and> rows = knnMatch ddist os ds k))"
  by (auto simp: bf_knnMatch_def rows_of_def knnMatch_length split: option.splits if_splits)

lemma corner_match_exact:
  assumes "2 \<le> length ds" and "length ds \<le> length ncs"
  shows "corner_match rnd ddist self (Some os) (Some ds) ncs =
     Inr (map (\<lambda>row. ncs ! trainIdx (row ! 0))
            (filter (\<lambda>row. distance (row ! 0) < rnd (rnd (close_match_threshold self) * distance (row ! 1))
                           \<and> response (ncs ! trainIdx (row ! 0)) > corner_threshold self)
               (knnMatch ddist os ds 2)))"
proof -
  let ?rows = "knnMatch ddist os ds 2"
  let ?P = "\<lambda>row. distance (row ! 0) < rnd (rnd (close_match_threshold self) * distance (row ! 1))
                           \<and> response (ncs ! trainIdx (row ! 0)) > corner_threshold self"
  have rows: "\<forall>row \<in> set ?rows. length row = 2 \<and> trainIdx (row ! 0) < length ncs"
  proof
    fix row assume r: "row \<in> set ?rows"
    then have len: "length row = 2" using assms(1) by (simp add: knnMatch_row_length)
    then have "row ! 0 \<in> set row" by simp
    with r have "trainIdx (row ! 0) < length ds" by (rule knnMatch_trainIdx)
    with len assms(2) show "length row = 2 \<and> trainIdx (row ! 0) < length ncs" by simp
  qed
  have loop: "good_matches_loop rnd self ncs ?rows [] =
      Inr (map (\<lambda>row. (queryIdx (row ! 0), trainIdx (row ! 0))) (filter ?P ?rows))"
    using loop_exact[OF rows, of rnd self "[]"] by simp
  have bound: "\<forall>i \<in> set (map snd (map (\<lambda>row. (queryIdx (row ! 0), trainIdx (row ! 0))) (filter ?P ?rows))).
                 i < length ncs"
    using rows by auto
  note sel = select_corners_ok[OF bound]
  show ?thesis
    unfolding corner_match_def bf_knnMatch_arrays Let_def sum.case loop sel
    by (simp add: comp_def)
qed

lemma corner_match_loop:
  assumes "corner_match rnd ddist self original new ncs = Inr out"
  obtains rows good where "bf_knnMatch ddist original new 2 = Inr rows"
    and "good_matches_loop rnd self ncs rows [] = Inr good"
    and "select_corners ncs (map snd good) = Inr out"
  using assms by (auto simp: corner_match_def Let_def split: sum.splits)

lemmas run_simps = corner_match_def bf_knnMatch_def sift_compute_def knnMatch_def knn_row_def
  abs_dist_def x_coord_def exact_def kp_def init_def strict_ratio_def loop_pair upt_rec
  numeral_2_eq_2

text \<open>
  The rounding matters at the edge of the ratio test. At the slider value 7 the stored
  threshold is the double nearest to 7/100, which is 1261007895663739 / 2^54, and its
  double product with the distance 100 is 7 + 2^-50: a nearest match at distance 7 with
  a second nearest at distance 100 passes the test, as it does in the program. With the
  exact product 7 it would not.
\<close>

lemma slider_seven_in_doubles:
  assumes "rnd (7/100) = 1261007895663739 / 2 ^ 54"
    and "rnd (1261007895663739 / 2 ^ 54 * 100) = 7 + 1 / 2 ^ 50"
  shows "corner_match rnd abs_dist slider_seven (Some [0]) (Some [7, 100])
           [kp 7 0 1, kp 100 0 1] = Inr [kp 7 0 1]"
proof -
  have "rnd (rnd (7/100) * 100) = 7 + 1 / 2 ^ 50"
    by (simp only: assms)
  then have "7 < rnd (rnd (7/100) * 100)" by simp
  then show ?thesis
    by (simp add: corner_match_def bf_knnMatch_def knnMatch_def knn_row_def abs_dist_def kp_def
        init_def slider_seven_def change_match_threshold_def loop_pair upt_rec numeral_2_eq_2)
qed

lemma slider_seven_exact_product:
  "corner_match exact abs_dist slider_seven (Some [0]) (Some [7, 100])
           [kp 7 0 1, kp 100 0 1] = Inr []"
  by (simp add: run_simps slider_seven_def change_match_threshold_def)

text \<open>
  Claim C1 says that each descriptor of the new image is matched against the reference
  descriptors and its corner accepted exactly when its own two nearest reference
  descriptors pass the ratio test. The code calls the matcher the other way round. With
  reference descriptors 0 and 100, new descriptors 0 and 1 and the ratio threshold 1/2,
  the second new descriptor has the reference distances 1 and 99 and the response 1, so
  the claim accepts its corner; \<open>corner_match\<close> returns the first corner only.
\<close>

theorem corner_match_not_by_query:
  "sift_compute x_coord frame_corners frame_corners = Some [0, 1]
   \<and> knnMatch abs_dist [0, 1] ref_descriptors 2 ! 1 =
     [\<lparr>queryIdx = 1, trainIdx = 0, distance = 1\<rparr>, \<lparr>queryIdx = 1, trainIdx = 1, distance = 99\<rparr>]
   \<and> (1::real) < exact (exact (close_match_threshold strict_ratio) * 99)
   \<and> response (frame_corners ! 1) > corner_threshold strict_ratio
   \<and> corner_match exact abs_dist strict_ratio (Some ref_descriptors)
        (sift_compute x_coord frame_corners frame_corners) frame_corners = Inr [kp 0 0 1]
   \<and> frame_corners ! 1 \<notin> set [kp 0 0 1]"
  by (simp add: run_simps ref_descriptors_def frame_corners_def)

text \<open>
  Claim C1, amended. Given at least two new descriptors, index-aligned with
  \<open>new_corners\<close>, \<open>corner_match\<close> takes each reference descriptor in order, finds
  its nearest and second nearest neighbour among the descriptors of the new image
  (distances \<open>d1\<close> and \<open>d2\<close>), and returns the corner of the nearest one if and
  only if \<open>d1\<close> is below the double product of the stored ratio threshold and
  \<open>d2\<close> and that corner's response is above \<open>corner_threshold\<close>: the result has one
  entry for each reference descriptor that passes, in the order of the reference
  descriptors.
\<close>

theorem corner_match_by_reference:
  assumes "2 \<le> length new" and "length new \<le> length new_corners"
  shows "corner_match rnd ddist self (Some original) (Some new) new_corners =
           Inr (map (\<lambda>row. new_corners ! trainIdx (row ! 0))
                  (filter (\<lambda>row. distance (row ! 0)
                                   < rnd (rnd (close_match_threshold self) * distance (row ! 1))
                                 \<and> response (new_corners ! trainIdx (row ! 0)) > corner_threshold self)
                     (knnMatch ddist original new 2)))
         \<and> length (knnMatch ddist original new 2) = length original
         \<and> (\<forall>i \<in> set [0..<length original].
               \<exists>m n. knnMatch ddist original new 2 ! i = [m, n] \<and> queryIdx m = i \<and>
                     two_nearest ddist (original ! i) new m n)"
proof -
  have "\<forall>i \<in> set [0..<length original].
               \<exists>m n. knnMatch ddist original new 2 ! i = [m, n] \<and> queryIdx m = i \<and>
                     two_nearest ddist (original ! i) new m n"
  proof
    fix i assume "i \<in> set [0..<length original]"
    then have i: "i < length original" by simp
    then have "knnMatch ddist original new 2 ! i = take 2 (knn_row ddist i (original ! i) new)"
      by (simp add: knnMatch_def)
    with knn_row_two_nearest[OF assms(1), of ddist i "original ! i"]
    show "\<exists>m n. knnMatch ddist original new 2 ! i = [m, n] \<and> queryIdx m = i \<and>
                     two_nearest ddist (original ! i) new m n" by simp
  qed
  with corner_match_exact[OF assms] knnMatch_length show ?thesis by blast
qed

theorem corner_match_by_reference_witness:
  "2 \<le> length [0, 1 :: real]
   \<and> length [0, 1 :: real] \<le> length frame_corners
   \<and> corner_match exact abs_dist strict_ratio (Some ref_descriptors) (Some [0, 1])
        frame_corners = Inr [kp 0 0 1]
   \<and> (\<exists>m n. knnMatch abs_dist ref_descriptors [0, 1] 2 ! 0 = [m, n] \<and> queryIdx m = 0 \<and>
              two_nearest abs_dist (ref_descriptors ! 0) [0, 1] m n)
   \<and> (\<exists>m n. knnMatch abs_dist ref_descriptors [0, 1] 2 ! 1 = [m, n] \<and> queryIdx m = 1 \<and>
              two_nearest abs_dist (ref_descriptors ! 1) [0, 1] m n)"
proof -
  have h1: "2 \<le> length [0, 1 :: real]" by simp
  have h2: "length [0, 1 :: real] \<le> length frame_corners"
    by (simp add: frame_corners_def)
  have i0: "0 \<in> set [0..<length ref_descriptors]" and i1: "1 \<in> set [0..<length ref_descriptors]"
    by (simp_all add: ref_descriptors_def)
  have run: "corner_match exact abs_dist strict_ratio (Some ref_descriptors) (Some [0, 1])
        frame_corners = Inr [kp 0 0 1]"
    by (simp add: run_simps ref_descriptors_def frame_corners_def)
  from corner_match_by_reference[OF h1 h2, of exact abs_dist strict_ratio ref_descriptors]
  have all: "\<forall>i \<in> set [0..<length ref_descriptors].
        \<exists>m n. knnMatch abs_dist ref_descriptors [0, 1] 2 ! i = [m, n] \<and> queryIdx m = i \<and>
              two_nearest abs_dist (ref_descriptors ! i) [0, 1] m n"
    by blast
  from bspec[OF all i0] bspec[OF all i1] h1 h2 run
  show ?thesis by blast
qed

text \<open>
  Claim C3 says that a corner is returned at most once and that the result is no longer
  than the list of new corners. Three reference descriptors whose nearest neighbour is
  the same new descriptor return its corner three times, from two new corners.
\<close>

theorem corner_match_repeats:
  "corner_match exact abs_dist (init []) (Some three_refs)
     (sift_compute x_coord far_corners far_corners) far_corners
     = Inr [kp 0 0 1, kp 0 0 1, kp 0 0 1]
   \<and> \<not> distinct [kp 0 0 1, kp 0 0 1, kp 0 0 1]
   \<and> \<not> length [kp 0 0 1, kp 0 0 1, kp 0 0 1] \<le> length far_corners"
  by (simp add: run_simps three_refs_def far_corners_def)

text \<open>
  Claim C3, amended. The list that \<open>corner_match\<close> returns has at most one entry for
  each reference descriptor, and each entry is one of the new corners.
\<close>

theorem corner_match_output_bound:
  assumes "corner_match rnd ddist self original new new_corners = Inr out"
  shows "length out \<le> rows_of original \<and> set out \<subseteq> set new_corners"
proof -
  from assms obtain rows good where r: "bf_knnMatch ddist original new 2 = Inr rows"
    and g: "good_matches_loop rnd self new_corners rows [] = Inr good"
    and s: "select_corners new_corners (map snd good) = Inr out"
    by (rule corner_match_loop)
  from bf_knnMatch_rows[OF r] have "length rows \<le> rows_of original" by simp
  moreover from loop_invariant[OF g] have "length good \<le> length rows"
    and b: "\<forall>p \<in> set good. snd p < length new_corners"
    by simp_all
  moreover from select_corners_nth[OF s] have "out = map (\<lambda>i. new_corners ! i) (map snd good)" by simp
  ultimately show ?thesis by auto
qed

theorem corner_match_output_bound_witness:
  "corner_match exact abs_dist (init []) (Some three_refs)
     (sift_compute x_coord far_corners far_corners) far_corners
     = Inr [kp 0 0 1, kp 0 0 1, kp 0 0 1]
   \<and> length [kp 0 0 1, kp 0 0 1, kp 0 0 1] \<le> rows_of (Some three_refs)
   \<and> set [kp 0 0 1, kp 0 0 1, kp 0 0 1] \<subseteq> set far_corners"
proof -
  have run: "corner_match exact abs_dist (init []) (Some three_refs)
     (sift_compute x_coord far_corners far_corners) far_corners
     = Inr [kp 0 0 1, kp 0 0 1, kp 0 0 1]"
    by (simp add: run_simps three_refs_def far_corners_def)
  from corner_match_output_bound[OF run] run show ?thesis by blast
qed

text \<open>
  Claim C4 says that an empty descriptor array on either side gives an empty result and
  no error. With reference descriptors and an empty array of new descriptors, the rows
  of the matcher hold no match and unpacking the first row raises ValueError; with
  \<open>None\<close> for the new descriptors the matcher itself raises.
\<close>

theorem corner_match_empty_query_raises:
  "corner_match exact abs_dist (init []) (Some ref_descriptors) (Some []) [] = Inl ValueError
   \<and> corner_match exact abs_dist (init []) (Some ref_descriptors) None [] = Inl CvError"
  by (simp add: run_simps ref_descriptors_def loop_not_pair)

text \<open>
  Claim C4, amended. With no reference descriptor (\<open>None\<close> or an empty array)
  \<open>corner_match\<close> returns the empty list and raises nothing. With reference
  descriptors it raises: \<open>cv2.error\<close> when the new descriptors are \<open>None\<close>,
  ValueError when they are an array of fewer than two rows, in particular an empty one.
\<close>

theorem corner_match_empty_inputs:
  "corner_match rnd ddist self None new new_corners = Inr []
   \<and> corner_match rnd ddist self (Some []) new new_corners = Inr []
   \<and> (original \<noteq> [] \<longrightarrow>
        corner_match rnd ddist self (Some original) None new_corners = Inl CvError)
   \<and> (original \<noteq> [] \<longrightarrow> length ds < 2 \<longrightarrow>
        corner_match rnd ddist self (Some original) (Some ds) new_corners = Inl ValueError)"
proof -
  have a: "corner_match rnd ddist self None new new_corners = Inr []"
    by (simp add: corner_match_def bf_knnMatch_def)
  have a': "corner_match rnd ddist self (Some []) new new_corners = Inr []"
    by (simp add: corner_match_def bf_knnMatch_def)
  have c: "corner_match rnd ddist self (Some original) None new_corners = Inl CvError"
    if "original \<noteq> []"
    using that by (simp add: corner_match_def bf_knnMatch_def)
  have b: "corner_match rnd ddist self (Some original) (Some ds) new_corners = Inl ValueError"
    if ne: "original \<noteq> []" and short: "length ds < 2"
  proof -
    from ne have "knnMatch ddist original ds 2 =
        take 2 (knn_row ddist 0 (original ! 0) ds) #
        map (\<lambda>qi. take 2 (knn_row ddist qi (original ! qi) ds)) [1..<length original]"
      by (simp add: knnMatch_def upt_conv_Cons)
    moreover have "length (take 2 (knn_row ddist 0 (original ! 0) ds)) \<noteq> 2"
      using short by (simp add: knn_row_length)
    ultimately show ?thesis
      by (simp add: corner_match_def bf_knnMatch_arrays loop_not_pair)
  qed
  from a a' b c show ?thesis by blast
qed

theorem corner_match_empty_inputs_witness:
  "corner_match exact abs_dist (init []) None (Some [0, 1]) frame_corners = Inr []
   \<and> corner_match exact abs_dist (init []) (Some []) (Some [0, 1]) frame_corners = Inr []
   \<and> ref_descriptors \<noteq> [] \<and> length ([] :: real list) < 2
   \<and> corner_match exact abs_dist (init []) (Some ref_descriptors) None [] = Inl CvError
   \<and> corner_match exact abs_dist (init []) (Some ref_descriptors) (Some []) [] = Inl ValueError"
proof -
  have h1: "ref_descriptors \<noteq> []" by (simp add: ref_descriptors_def)
  have h2: "length ([] :: real list) < 2" by simp
  from corner_match_empty_inputs[of exact abs_dist "init []" "Some [0, 1]" frame_corners
      ref_descriptors "[]"]
  have a: "corner_match exact abs_dist (init []) None (Some [0, 1]) frame_corners = Inr []"
    and a': "corner_match exact abs_dist (init []) (Some []) (Some [0, 1]) frame_corners = Inr []"
    by blast+
  from corner_match_empty_inputs[of exact abs_dist "init []" None "[]" ref_descriptors "[]"] h1 h2
  have b: "corner_match exact abs_dist (init []) (Some ref_descriptors) None [] = Inl CvError"
    and c: "corner_match exact abs_dist (init []) (Some ref_descriptors) (Some []) [] = Inl ValueError"
    by blast+
  from a a' b c h1 h2 show ?thesis by blast
qed

text \<open>
  Claim C8. Whatever the inputs, no corner whose response is less than or equal to
  \<open>corner_threshold\<close> is in the list that \<open>corner_match\<close> returns.
\<close>

theorem corner_match_above_threshold:
  assumes "corner_match rnd ddist self original new new_corners = Inr out"
  shows "\<forall>corner \<in> set out. \<not> response corner \<le> corner_threshold self"
proof -
  from assms obtain rows good where
    g: "good_matches_loop rnd self new_corners rows [] = Inr good"
    and s: "select_corners new_corners (map snd good) = Inr out"
    by (rule corner_match_loop)
  from loop_invariant[OF g] have
    "\<forall>p \<in> set good. snd p < length new_corners \<and> response (new_corners ! snd p) > corner_threshold self"
    by simp
  moreover from select_corners_nth[OF s] have "out = map (\<lambda>i. new_corners ! i) (map snd good)" by simp
  ultimately show ?thesis by auto
qed

theorem corner_match_above_threshold_witness:
  "corner_match exact abs_dist ((init [])\<lparr>corner_threshold := 1/2\<rparr>) (Some three_refs)
      (sift_compute x_coord far_corners far_corners) far_corners
      = Inr [kp 0 0 1, kp 0 0 1, kp 0 0 1]
   \<and> \<not> response (kp 0 0 1) \<le> corner_threshold ((init [])\<lparr>corner_threshold := 1/2\<rparr>)"
proof -
  have run: "corner_match exact abs_dist ((init [])\<lparr>corner_threshold := 1/2\<rparr>) (Some three_refs)
      (sift_compute x_coord far_corners far_corners) far_corners
      = Inr [kp 0 0 1, kp 0 0 1, kp 0 0 1]"
    by (simp add: run_simps three_refs_def far_corners_def)
  from corner_match_above_threshold[OF run]
  have "\<not> response (kp 0 0 1) \<le> corner_threshold ((init [])\<lparr>corner_threshold := 1/2\<rparr>)"
    by simp
  with run show ?thesis by blast
qed

section \<open>Descriptors and corners\<close>

text \<open>
  Claim C5 says that for every image and threshold the descriptors are a sequence as
  long as the corner list. When no corner is above the threshold the corner list is
  empty and \<open>find_descriptors\<close> returns \<open>None\<close>, which is no sequence: here at the
  slider value 100 on an image whose strongest response is 0.06.
\<close>

theorem find_descriptors_none:
  "find_corners (\<lambda>i. i) (\<lambda>g. g) (change_corner_threshold (init []) 100) two_corner_image = []
   \<and> find_descriptors (\<lambda>i. i) (\<lambda>g. g) x_coord (change_corner_threshold (init []) 100)
        two_corner_image = None
   \<and> find_descriptors (\<lambda>i. i) (\<lambda>g. g) x_coord (change_corner_threshold (init []) 100)
        two_corner_image \<noteq> Some []"
  by (simp add: find_descriptors_def find_corners_def sift_compute_def init_def
      change_corner_threshold_def two_corner_image_def kp_def)

text \<open>
  Claim C5, amended. For any image and threshold at which \<open>find_corners\<close> returns at
  least one corner, \<open>find_descriptors\<close> returns an array with as many rows as
  \<open>find_corners\<close> returns corners on that image at that threshold, row \<open>i\<close> being
  the descriptor of corner \<open>i\<close>; when \<open>find_corners\<close> returns no corner,
  \<open>find_descriptors\<close> returns \<open>None\<close>.
\<close>

theorem find_descriptors_aligned:
  "(find_corners cvt detect self img \<noteq> [] \<longrightarrow>
      (\<exists>ds. find_descriptors cvt detect describe self img = Some ds
            \<and> length ds = length (find_corners cvt detect self img)
            \<and> (\<forall>i \<in> set [0..<length ds].
                  ds ! i = describe (cvt img) (find_corners cvt detect self img ! i))))
   \<and> (find_corners cvt detect self img = [] \<longrightarrow>
        find_descriptors cvt detect describe self img = None)"
  by (simp add: find_descriptors_def sift_compute_def Let_def)

theorem find_descriptors_aligned_witness:
  "find_corners (\<lambda>i. i) (\<lambda>g. g) (init []) two_corner_image = [kp 0 0 (1/100), kp 1 1 (6/100)]
   \<and> find_descriptors (\<lambda>i. i) (\<lambda>g. g) x_coord (init []) two_corner_image = Some [0, 1]
   \<and> length [0, 1 :: real] = length (find_corners (\<lambda>i. i) (\<lambda>g. g) (init []) two_corner_image)
   \<and> [0, 1] ! 1 = x_coord two_corner_image
                     (find_corners (\<lambda>i. i) (\<lambda>g. g) (init []) two_corner_image ! 1)"
proof -
  have c: "find_corners (\<lambda>i. i) (\<lambda>g. g) (init []) two_corner_image
             = [kp 0 0 (1/100), kp 1 1 (6/100)]"
    by (simp add: find_corners_def init_def two_corner_image_def kp_def)
  then have ne: "find_corners (\<lambda>i. i) (\<lambda>g. g) (init []) two_corner_image \<noteq> []" by simp
  have d: "find_descriptors (\<lambda>i. i) (\<lambda>g. g) x_coord (init []) two_corner_image = Some [0, 1]"
    by (simp add: find_descriptors_def find_corners_def sift_compute_def x_coord_def init_def
        two_corner_image_def kp_def)
  from find_descriptors_aligned[of "\<lambda>i. i" "\<lambda>g. g" "init []" two_corner_image x_coord] ne
  obtain ds where ds: "find_descriptors (\<lambda>i. i) (\<lambda>g. g) x_coord (init []) two_corner_image = Some ds"
    and len: "length ds = length (find_corners (\<lambda>i. i) (\<lambda>g. g) (init []) two_corner_image)"
    and al: "\<forall>i \<in> set [0..<length ds].
                  ds ! i = x_coord two_corner_image
                     (find_corners (\<lambda>i. i) (\<lambda>g. g) (init []) two_corner_image ! i)"
    by auto
  from ds d have eq: "ds = [0, 1]" by simp
  from al have "ds ! 1 = x_coord two_corner_image
                     (find_corners (\<lambda>i. i) (\<lambda>g. g) (init []) two_corner_image ! 1)"
    unfolding eq by simp
  with c d len eq show ?thesis by simp
qed

section \<open>Properties of the frame loop\<close>

lemma corner_match_no_IndexError:
  assumes "bf_knnMatch ddist original new 2 = Inr rows"
    and "\<forall>row \<in> set rows. \<forall>m \<in> set row. trainIdx m < length new_corners"
  shows "corner_match rnd ddist self original new new_corners \<noteq> Inl IndexError"
proof (cases "good_matches_loop rnd self new_corners rows []")
  case (Inl e)
  with loop_no_IndexError[OF assms(2), of rnd self "[]"] assms(1) show ?thesis
    by (simp add: corner_match_def)
next
  case (Inr good)
  from loop_invariant[OF Inr] have "\<forall>i \<in> set (map snd good). i < length new_corners" by simp
  from select_corners_ok[OF this] Inr assms(1) show ?thesis
    by (simp add: corner_match_def)
qed

lemma corner_match_IndexError_iff:
  assumes "2 \<le> length ds"
  shows "corner_match rnd ddist self (Some os) (Some ds) ncs = Inl IndexError \<longleftrightarrow>
     (\<exists>row \<in> set (knnMatch ddist os ds 2).
         distance (row ! 0) < rnd (rnd (close_match_threshold self) * distance (row ! 1))
         \<and> \<not> trainIdx (row ! 0) < length ncs)"
proof -
  let ?rows = "knnMatch ddist os ds 2"
  have pairs: "\<forall>row \<in> set ?rows. length row = 2"
    using assms by (simp add: knnMatch_row_length)
  have "corner_match rnd ddist self (Some os) (Some ds) ncs = Inl IndexError \<longleftrightarrow>
        good_matches_loop rnd self ncs ?rows [] = Inl IndexError"
  proof (cases "good_matches_loop rnd self ncs ?rows []")
    case (Inl e)
    then show ?thesis by (simp add: corner_match_def bf_knnMatch_arrays)
  next
    case (Inr good)
    from loop_invariant[OF Inr] have "\<forall>i \<in> set (map snd good). i < length ncs" by simp
    from select_corners_ok[OF this] Inr show ?thesis
      by (simp add: corner_match_def bf_knnMatch_arrays)
  qed
  with loop_IndexError_iff[OF pairs, of rnd self ncs "[]"] show ?thesis by simp
qed

text \<open>
  Claim C9 says that the indexing is in bounds only if the \<open>trainIdx\<close> of every
  returned match is below the length of \<open>new_corners\<close>. Only the nearest match of a
  row is used as an index: with one reference descriptor 0, new descriptors 0, 5 and 1
  and two corners, the second nearest match has \<open>trainIdx\<close> 2, which is out of
  range, and \<open>corner_match\<close> returns the first corner without an error. The same
  happens in a pass of the frame loop in which the corner threshold is lowered from 0.05
  to 0 between the two calls: two corners, three descriptors, a second nearest match
  with \<open>trainIdx\<close> 2, and the pass shows a corner.
\<close>

theorem corner_match_reads_nearest_only:
  "bf_knnMatch abs_dist (Some [0]) (Some [0, 5, 1]) 2 =
     Inr [[\<lparr>queryIdx = 0, trainIdx = 0, distance = 0\<rparr>, \<lparr>queryIdx = 0, trainIdx = 2, distance = 1\<rparr>]]
   \<and> length wide_frame = 2
   \<and> \<not> trainIdx \<lparr>queryIdx = 0, trainIdx = 2, distance = 1\<rparr> < length wide_frame
   \<and> corner_match exact abs_dist (init []) (Some [0]) (Some [0, 5, 1]) wide_frame
       = Inr [kp 0 0 1]
   \<and> find_corners (\<lambda>i. i) (\<lambda>g. g) (change_corner_threshold (init []) 50) three_corner_image
       = [kp 1 0 (1/8), kp 2 0 (1/8)]
   \<and> find_descriptors (\<lambda>i. i) (\<lambda>g. g) x_coord (change_corner_threshold (init []) 0)
        three_corner_image = Some [0, 1, 2]
   \<and> bf_knnMatch abs_dist (Some [5/4]) (Some [0, 1, 2]) 2 =
     Inr [[\<lparr>queryIdx = 0, trainIdx = 1, distance = 1/4\<rparr>, \<lparr>queryIdx = 0, trainIdx = 2, distance = 3/4\<rparr>]]
   \<and> loop_body exact (\<lambda>i. i) (\<lambda>g. g) x_coord abs_dist first_four
        (change_corner_threshold (init []) 50) (change_corner_threshold (init []) 0) (init [])
        (Some [5/4]) (Assigned None) (Some three_corner_image)
       = Inr (Assigned None, Shown [] [kp 2 0 (1/8)])"
  by (simp add: loop_body_def find_corners_def find_descriptors_def change_corner_threshold_def
      three_corner_image_def wide_frame_def run_simps)

text \<open>
  Claim C9, amended. \<open>corner_match\<close> reads \<open>new_corners\<close> at the \<open>trainIdx\<close> of
  the nearest match of a row, and only when that match has passed the ratio test. If
  the \<open>trainIdx\<close> of every match the matcher returns is below the length of
  \<open>new_corners\<close>, no IndexError is raised; the condition is sufficient, not necessary:
  with at least two new descriptors, IndexError is raised exactly when the nearest match
  of some row passes the ratio test with a \<open>trainIdx\<close> out of range. A pass of the
  frame loop in which \<open>find_corners\<close> and \<open>find_descriptors\<close> read the same
  thresholds raises no IndexError; a pass in which the corner threshold is lowered from
  0.05 to 0 between the two calls can raise it, because \<open>find_descriptors\<close> finds the
  corners again.
\<close>

theorem corner_match_index_alignment:
  "(bf_knnMatch ddist original new 2 = Inr rows \<longrightarrow>
      (\<forall>row \<in> set rows. \<forall>m \<in> set row. trainIdx m < length new_corners) \<longrightarrow>
      corner_match rnd ddist self original new new_corners \<noteq> Inl IndexError)
   \<and> (2 \<le> length ds \<longrightarrow>
        (corner_match rnd ddist self (Some os) (Some ds) new_corners = Inl IndexError \<longleftrightarrow>
          (\<exists>row \<in> set (knnMatch ddist os ds 2).
              distance (row ! 0) < rnd (rnd (close_match_threshold self) * distance (row ! 1))
              \<and> \<not> trainIdx (row ! 0) < length new_corners)))
   \<and> loop_body rnd cvt detect describe ddist fit self1 self1 self3 train_descriptors
        cluster_coords frame \<noteq> Inl IndexError
   \<and> loop_body exact (\<lambda>i. i) (\<lambda>g. g) x_coord abs_dist first_four
        (change_corner_threshold (init []) 50) (change_corner_threshold (init []) 0) (init [])
        (Some [2]) Unassigned (Some three_corner_image) = Inl IndexError"
proof -
  have a: "corner_match rnd ddist self original new new_corners \<noteq> Inl IndexError"
    if "bf_knnMatch ddist original new 2 = Inr rows"
      and "\<forall>row \<in> set rows. \<forall>m \<in> set row. trainIdx m < length new_corners"
    using that by (rule corner_match_no_IndexError)
  have a': "corner_match rnd ddist self (Some os) (Some ds) new_corners = Inl IndexError \<longleftrightarrow>
          (\<exists>row \<in> set (knnMatch ddist os ds 2).
              distance (row ! 0) < rnd (rnd (close_match_threshold self) * distance (row ! 1))
              \<and> \<not> trainIdx (row ! 0) < length new_corners)"
    if "2 \<le> length ds"
    using that by (rule corner_match_IndexError_iff)
  have b: "loop_body rnd cvt detect describe ddist fit self1 self1 self3 train_descriptors
            cluster_coords frame \<noteq> Inl IndexError"
  proof (cases frame)
    case None
    then show ?thesis by (simp add: loop_body_def)
  next
    case (Some frm)
    let ?nc = "find_corners cvt detect self1 frm"
    let ?nd = "find_descriptors cvt detect describe self1 frm"
    show ?thesis
    proof (cases "length ?nc > 1")
      case False
      with Some show ?thesis by (simp add: loop_body_def Let_def)
    next
      case True
      then have nd: "?nd = Some (map (describe (cvt frm)) ?nc)"
        by (auto simp: find_descriptors_def sift_compute_def Let_def)
      have cm: "corner_match rnd ddist self3 train_descriptors ?nd ?nc \<noteq> Inl IndexError"
      proof (cases "bf_knnMatch ddist train_descriptors ?nd 2")
        case (Inl e)
        then show ?thesis by (cases e) (auto simp: corner_match_def bf_knnMatch_def
              split: option.splits if_splits)
      next
        case (Inr rows)
        have "\<forall>row \<in> set rows. \<forall>m \<in> set row. trainIdx m < length ?nc"
        proof (cases "rows = []")
          case True
          then show ?thesis by simp
        next
          case False
          with bf_knnMatch_rows[OF Inr] obtain os ds where
            "?nd = Some ds" and rows: "rows = knnMatch ddist os ds 2" by auto
          with nd have "length ds = length ?nc" by auto
          with rows show ?thesis
            using knnMatch_trainIdx[of _ ddist os ds 2] by auto
        qed
        with Inr show ?thesis by (rule corner_match_no_IndexError)
      qed
      then show ?thesis using Some True
        by (auto simp: loop_body_def Let_def split: sum.splits pyvar.splits option.splits)
    qed
  qed
  have c: "loop_body exact (\<lambda>i. i) (\<lambda>g. g) x_coord abs_dist first_four
        (change_corner_threshold (init []) 50) (change_corner_threshold (init []) 0) (init [])
        (Some [2]) Unassigned (Some three_corner_image) = Inl IndexError"
    by (simp add: loop_body_def find_corners_def find_descriptors_def change_corner_threshold_def
        three_corner_image_def run_simps)
  from a a' b c show ?thesis by blast
qed

theorem corner_match_index_alignment_witness:
  "bf_knnMatch abs_dist (Some ref_descriptors) (Some [0, 1]) 2 =
     Inr [[\<lparr>queryIdx = 0, trainIdx = 0, distance = 0\<rparr>, \<lparr>queryIdx = 0, trainIdx = 1, distance = 1\<rparr>],
          [\<lparr>queryIdx = 1, trainIdx = 1, distance = 99\<rparr>, \<lparr>queryIdx = 1, trainIdx = 0, distance = 100\<rparr>]]
   \<and> length frame_corners = 2
   \<and> corner_match exact abs_dist strict_ratio (Some ref_descriptors) (Some [0, 1])
        frame_corners \<noteq> Inl IndexError
   \<and> 2 \<le> length [0, 5, 1 :: real]
   \<and> corner_match exact abs_dist (init []) (Some [0]) (Some [0, 5, 1]) wide_frame
        \<noteq> Inl IndexError
   \<and> loop_body exact (\<lambda>i. i) (\<lambda>g. g) x_coord abs_dist first_four
        strict_ratio strict_ratio strict_ratio (Some ref_descriptors)
        (Assigned None) (Some frame_corners) \<noteq> Inl IndexError"
proof -
  have rows: "bf_knnMatch abs_dist (Some ref_descriptors) (Some [0, 1]) 2 =
     Inr [[\<lparr>queryIdx = 0, trainIdx = 0, distance = 0\<rparr>, \<lparr>queryIdx = 0, trainIdx = 1, distance = 1\<rparr>],
          [\<lparr>queryIdx = 1, trainIdx = 1, distance = 99\<rparr>, \<lparr>queryIdx = 1, trainIdx = 0, distance = 100\<rparr>]]"
    by (simp add: run_simps ref_descriptors_def)
  have len: "length frame_corners = 2" by (simp add: frame_corners_def)
  have h1: "\<forall>row \<in> set [[\<lparr>queryIdx = 0, trainIdx = 0, distance = 0\<rparr>, \<lparr>queryIdx = 0, trainIdx = 1, distance = 1\<rparr>],
          [\<lparr>queryIdx = 1, trainIdx = 1, distance = 99\<rparr>, \<lparr>queryIdx = 1, trainIdx = 0, distance = 100::real\<rparr>]].
      \<forall>m \<in> set row. trainIdx m < length frame_corners"
    unfolding len by simp
  have h2: "2 \<le> length [0, 5, 1 :: real]" by simp
  have none: "\<not> (\<exists>row \<in> set (knnMatch abs_dist [0] [0, 5, 1] 2).
              distance (row ! 0) < exact (exact (close_match_threshold (init [])) * distance (row ! 1))
              \<and> \<not> trainIdx (row ! 0) < length wide_frame)"
    by (simp add: run_simps wide_frame_def)
  from corner_match_index_alignment[of abs_dist "Some ref_descriptors" "Some [0, 1]" _
      frame_corners exact strict_ratio "[0, 5, 1]" "[0]" "\<lambda>i. i" "\<lambda>g. g" x_coord first_four
      strict_ratio strict_ratio "Some ref_descriptors" "Assigned None" "Some frame_corners"]
    rows h1
  have p1: "corner_match exact abs_dist strict_ratio (Some ref_descriptors) (Some [0, 1])
        frame_corners \<noteq> Inl IndexError"
    and p3: "loop_body exact (\<lambda>i. i) (\<lambda>g. g) x_coord abs_dist first_four
        strict_ratio strict_ratio strict_ratio (Some ref_descriptors)
        (Assigned None) (Some frame_corners) \<noteq> Inl IndexError"
    by blast+
  from corner_match_index_alignment[of abs_dist None None "[]" wide_frame exact "init []"
      "[0, 5, 1]" "[0]" "\<lambda>i. i" "\<lambda>g. g" x_coord first_four
      strict_ratio strict_ratio "Some ref_descriptors" "Assigned None" "Some frame_corners"]
    h2 none
  have p2: "corner_match exact abs_dist (init []) (Some [0]) (Some [0, 5, 1]) wide_frame
        \<noteq> Inl IndexError"
    by blast
  from rows len p1 h2 p2 p3 show ?thesis by blast
qed

text \<open>
  Claim C2 says that a frame whose clustering stage is skipped shows no cluster centres
  of an earlier frame. In the code \<open>cluster_coords\<close> is assigned only when more than
  five good corners remain and is read in every pass that gets past the corner check.
  With eight reference descriptors, a first frame gives eight good corners and four
  centres; the next frame gives two good corners, its clustering is skipped, and it
  shows the centres of the first frame. As the first frame, that frame raises NameError.
\<close>

theorem loop_stale_clusters:
  "loop_body exact (\<lambda>i. i) (\<lambda>g. g) x_coord abs_dist first_four
        strict_ratio strict_ratio strict_ratio (Some eight_refs)
        Unassigned (Some first_frame)
     = Inr (Assigned (Some first_centers),
            Shown first_centers
              [kp 0 7 1, kp 0 7 1, kp 0 7 1, kp 0 7 1, kp 0 7 1, kp 0 7 1, kp 0 7 1, kp 0 7 1])
   \<and> loop_body exact (\<lambda>i. i) (\<lambda>g. g) x_coord abs_dist first_four
        strict_ratio strict_ratio strict_ratio (Some eight_refs)
        (Assigned (Some first_centers)) (Some frame_corners)
     = Inr (Assigned (Some first_centers), Shown first_centers [kp 0 0 1, kp 1 0 1])
   \<and> loop_body exact (\<lambda>i. i) (\<lambda>g. g) x_coord abs_dist first_four
        strict_ratio strict_ratio strict_ratio (Some eight_refs)
        Unassigned (Some frame_corners)
     = Inl NameError"
  by (simp add: loop_body_def find_corners_def find_descriptors_def find_four_clusters_def
      find_x_def find_y_def first_four_def first_centers_def eight_refs_def first_frame_def
      frame_corners_def run_simps)

section \<open>The cluster engine\<close>

text \<open>
  Claim C6 says that \<open>find_four_clusters\<close> returns \<open>None\<close> for every point
  sequence that cannot support four distinct clusters. It returns \<open>None\<close> only when
  the fit raises, and the fit raises only on fewer than four points: six corners at the
  same point give four centres, three corners give \<open>None\<close>.
\<close>

theorem find_four_clusters_same_points:
  "find_four_clusters (kmeans_fit (take 4)) six_same = Some [(3, 4), (3, 4), (3, 4), (3, 4)]
   \<and> find_four_clusters (kmeans_fit (take 4)) six_same \<noteq> None
   \<and> find_four_clusters (kmeans_fit (take 4)) [kp 3 4 1, kp 3 4 1, kp 3 4 1] = None"
  by (simp add: find_four_clusters_def kmeans_fit_def find_x_def find_y_def six_same_def kp_def)

end
